theory Spec2Isabelle
  imports Main
begin

section \<open>JavaScript values and exceptions\<close>

text \<open>
  The scalar values a parsed JSON field can hold, with \<open>Undefined\<close> for a field that is
  absent. \<open>truthy\<close> is JavaScript's ToBoolean on them and \<open>js_or\<close> is the operator
  \<^verbatim>\<open>||\<close>.

  A JavaScript string is a sequence of 16-bit code units. It is given here by its bytes in
  generalised UTF-8: text is its UTF-8 encoding, and a surrogate code unit that is not
  half of a pair is the three bytes that UTF-8 would give its code point, the byte
  \<open>0xED\<close> followed by a byte from \<open>0xA0\<close> to \<open>0xBF\<close> and one more. Well-formed UTF-8
  never has \<open>0xED\<close> followed by such a byte, so \<open>lone_surrogate\<close> finds exactly the
  strings with an unpaired surrogate.
\<close>

datatype jsval = Undefined | Null | Bool bool | Num int | Str string

fun truthy :: "jsval \<Rightarrow> bool" where
  "truthy Undefined = False"
| "truthy Null = False"
| "truthy (Bool b) = b"
| "truthy (Num n) = (n \<noteq> 0)"
| "truthy (Str s) = (s \<noteq> [])"

definition js_or :: "jsval \<Rightarrow> jsval \<Rightarrow> jsval" where
  "js_or a b = (if truthy a then a else b)"

fun lone_surrogate :: "string \<Rightarrow> bool" where
  "lone_surrogate (a # b # s) =
     ((a = CHR 0xED \<and> (0xA0 :: nat) \<le> of_char b \<and> of_char b \<le> (0xBF :: nat))
      \<or> lone_surrogate (b # s))"
| "lone_surrogate s = False"

text \<open>
  What a \<^verbatim>\<open>throw\<close> or a rejected promise carries: \<open>JsError m\<close> is \<^verbatim>\<open>new Error(m)\<close>,
  \<open>AppwriteException\<close> is what the database client rejects with when the server answers
  with an error; a transport failure rejects with a \<open>TypeError\<close>.
\<close>

datatype exn = TypeError | SyntaxError | URIError | JsError string | AppwriteException

subsection \<open>Numbers\<close>

text \<open>
  A JavaScript number is a double. The numbers of this program hold integers, and an
  \<open>int\<close> stands for the double with that value. \<open>to_double\<close> rounds an integer to the
  nearest one that a double holds, that is one with at most 53 significant bits, and to
  the one with the even significand when two are equally near. \<open>js_add\<close> is the operator
  \<^verbatim>\<open>+\<close> on two numbers. Magnitudes stay far below the largest double.
\<close>

function bit_length :: "int \<Rightarrow> nat" where
  "bit_length n = (if n \<le> 0 then 0 else Suc (bit_length (n div 2)))"
  by pat_completeness auto
termination
  by (relation "measure nat") auto

declare bit_length.simps [simp del]

definition to_double :: "int \<Rightarrow> int" where
  "to_double m =
     (let a = \<bar>m\<bar>
      in if a \<le> 2 ^ 53 then m
         else
           (let u = 2 ^ (bit_length a - 53);
                q = a div u;
                r = a mod u;
                q' = (if 2 * r < u \<or> (2 * r = u \<and> even q) then q else q + 1)
            in sgn m * (q' * u)))"

definition js_add :: "int \<Rightarrow> int \<Rightarrow> int" where
  "js_add a b = to_double (to_double a + to_double b)"

section \<open>Data model\<close>

text \<open>
  A movie of the catalog: the fields the program reads. \<open>poster_path\<close> is a string or
  \<^verbatim>\<open>null\<close> (\<open>None\<close>).
\<close>

record movie =
  id_m :: int
  title :: string
  poster_path :: "string option"

text \<open>
  A document of the search collection, as the client reads it; \<open>dollar_id\<close> is the field
  \<^verbatim>\<open>$id\<close> and \<open>count\<close> is a number.
\<close>

record document =
  dollar_id :: nat
  searchTerm :: string
  count :: int
  movie_id :: int
  poster_url :: string

text \<open>
  The body of a catalog response once parsed. \<open>results\<close> is \<open>None\<close> when the field is
  absent or \<^verbatim>\<open>null\<close>. A body that is the JSON value \<^verbatim>\<open>null\<close> is \<open>JNull\<close>; any other
  body that is not an object reads like an object with no fields.
\<close>

record payload =
  Response :: jsval
  Error :: jsval
  results :: "movie list option"

datatype json_body = JNull | JObject payload

record response =
  ok :: bool
  json :: "exn + json_body"

text \<open>
  What a run leaves behind, in order: the calls of the state setters, the requests sent,
  the calls of \<open>updateSearchCount\<close>, the console output, and an exception that leaves an
  asynchronous function whose caller does not wait for it.
\<close>

datatype event =
    SetIsLoading bool
  | SetErrorMessage jsval
  | SetMovieList "movie list"
  | SetIsTrendingLoading bool
  | SetTtendingMovies "document list option"
  | Fetch string
  | UpdateSearchCount string movie
  | ConsoleError string exn
  | ConsoleWarn string exn
  | UnhandledRejection exn

text \<open>
  The component's state variables written by the two cycles, the collection held by the
  database, and the trace. \<open>trandingMovies\<close> is \<open>None\<close> when the state holds
  \<^verbatim>\<open>undefined\<close>. A cycle is followed from its first statement to its last on its own:
  the debounce timer and two cycles in flight at once are not part of this development.
\<close>

record world =
  movieList :: "movie list"
  errorMessage :: jsval
  isLoading :: bool
  isTrendingLoading :: bool
  trandingMovies :: "document list option"
  documents :: "document list"
  trace :: "event list"

text \<open>
  The outside of the program during one cycle: the answer of the catalog service to a
  request, and whether and how each call of the database client fails. A failing call
  rejects with some exception; a failing write may or may not have reached the
  collection before it was reported as failed.
\<close>

datatype db_op = ListDocuments | UpdateDocument | CreateDocument

datatype failure = Rejects exn | RejectsAfterWrite exn

fun failure_exn :: "failure \<Rightarrow> exn" where
  "failure_exn (Rejects e) = e"
| "failure_exn (RejectsAfterWrite e) = e"

record env =
  fetch :: "string \<Rightarrow> exn + response"
  db_fails :: "db_op \<Rightarrow> failure option"

section \<open>State setters and console\<close>

definition emit :: "event \<Rightarrow> world \<Rightarrow> world" where
  "emit e w = w\<lparr>trace := trace w @ [e]\<rparr>"

definition setIsLoading :: "bool \<Rightarrow> world \<Rightarrow> world" where
  "setIsLoading b w = emit (SetIsLoading b) (w\<lparr>isLoading := b\<rparr>)"

definition setErrorMessage :: "jsval \<Rightarrow> world \<Rightarrow> world" where
  "setErrorMessage v w = emit (SetErrorMessage v) (w\<lparr>errorMessage := v\<rparr>)"

definition setMovieList :: "movie list \<Rightarrow> world \<Rightarrow> world" where
  "setMovieList ms w = emit (SetMovieList ms) (w\<lparr>movieList := ms\<rparr>)"

definition setIsTrendingLoading :: "bool \<Rightarrow> world \<Rightarrow> world" where
  "setIsTrendingLoading b w = emit (SetIsTrendingLoading b) (w\<lparr>isTrendingLoading := b\<rparr>)"

definition setTtendingMovies :: "document list option \<Rightarrow> world \<Rightarrow> world" where
  "setTtendingMovies ds w = emit (SetTtendingMovies ds) (w\<lparr>trandingMovies := ds\<rparr>)"

definition console_error :: "string \<Rightarrow> exn \<Rightarrow> world \<Rightarrow> world" where
  "console_error m e w = emit (ConsoleError m e) w"

definition console_warn :: "string \<Rightarrow> exn \<Rightarrow> world \<Rightarrow> world" where
  "console_warn m e w = emit (ConsoleWarn m e) w"

section \<open>The database client\<close>

text \<open>
  The three calls of the hosted database that the program makes, on the collection as a
  list in the store's own order. \<open>listDocuments\<close> returns documents or an exception. The
  two writes return their outcome together with the collection as it is afterwards: a
  call that \<open>Rejects\<close> has written nothing, a call that \<open>RejectsAfterWrite\<close> has written
  what a successful call would have. A call that the environment lets through is
  answered by the server, with an \<open>AppwriteException\<close> when \<open>updateDocument\<close> names no
  document or \<open>createDocument\<close> names a taken id.
\<close>

datatype query = Equal_searchTerm string | Limit nat | OrderDesc_count

fun query_matches :: "query \<Rightarrow> document \<Rightarrow> bool" where
  "query_matches (Equal_searchTerm t) d = (searchTerm d = t)"
| "query_matches (Limit n) d = True"
| "query_matches OrderDesc_count d = True"

fun query_order :: "query list \<Rightarrow> document list \<Rightarrow> document list" where
  "query_order [] ds = ds"
| "query_order (OrderDesc_count # qs) ds = sort_key (\<lambda>d. - count d) ds"
| "query_order (q # qs) ds = query_order qs ds"

fun query_limit :: "query list \<Rightarrow> document list \<Rightarrow> document list" where
  "query_limit [] ds = ds"
| "query_limit (Limit n # qs) ds = take n ds"
| "query_limit (q # qs) ds = query_limit qs ds"

definition listDocuments :: "env \<Rightarrow> query list \<Rightarrow> document list \<Rightarrow> exn + document list" where
  "listDocuments env qs ds =
     (case db_fails env ListDocuments of
        Some f \<Rightarrow> Inl (failure_exn f)
      | None \<Rightarrow>
          Inr (query_limit qs (query_order qs
                 (filter (\<lambda>d. list_all (\<lambda>q. query_matches q d) qs) ds))))"

definition updateDocument :: "env \<Rightarrow> nat \<Rightarrow> int \<Rightarrow> document list
    \<Rightarrow> (exn + unit) \<times> document list" where
  "updateDocument env i c ds =
     (let written = map (\<lambda>d. if dollar_id d = i then d\<lparr>count := c\<rparr> else d) ds;
          known = (i \<in> set (map dollar_id ds))
      in case db_fails env UpdateDocument of
           Some (Rejects e) \<Rightarrow> (Inl e, ds)
         | Some (RejectsAfterWrite e) \<Rightarrow> (Inl e, if known then written else ds)
         | None \<Rightarrow> if known then (Inr (), written) else (Inl AppwriteException, ds))"

definition createDocument :: "env \<Rightarrow> nat \<Rightarrow> string \<Rightarrow> int \<Rightarrow> int \<Rightarrow> string \<Rightarrow> document list
    \<Rightarrow> (exn + unit) \<times> document list" where
  "createDocument env i st c mid purl ds =
     (let written = ds @ [\<lparr>dollar_id = i, searchTerm = st, count = c, movie_id = mid,
                            poster_url = purl\<rparr>];
          taken = (i \<in> set (map dollar_id ds))
      in case db_fails env CreateDocument of
           Some (Rejects e) \<Rightarrow> (Inl e, ds)
         | Some (RejectsAfterWrite e) \<Rightarrow> (Inl e, if taken then ds else written)
         | None \<Rightarrow> if taken then (Inl AppwriteException, ds) else (Inr (), written))"

text \<open>\<^verbatim>\<open>ID.unique()\<close>: an id that no document of the collection has.\<close>

definition ID_unique :: "document list \<Rightarrow> nat" where
  "ID_unique ds = Suc (Max (insert 0 (set (map dollar_id ds))))"

section \<open>appwrite.js\<close>

text \<open>
  A template literal turns \<^verbatim>\<open>null\<close> into the text \<open>null\<close>.
\<close>

definition template_text :: "string option \<Rightarrow> string" where
  "template_text p = (case p of None \<Rightarrow> ''null'' | Some s \<Rightarrow> s)"

definition poster_template :: "string option \<Rightarrow> string" where
  "poster_template p = ''https://image.tmdb.org/t/p/w500'' @ template_text p"

text \<open>
  The body of the \<^verbatim>\<open>try\<close> block of \<open>updateSearchCount\<close>: it works on the
  collection only, and returns it as the calls have left it.
\<close>

definition updateSearchCount_try :: "env \<Rightarrow> string \<Rightarrow> movie \<Rightarrow> document list
    \<Rightarrow> (exn + unit) \<times> document list" where
  "updateSearchCount_try env term m ds =
     (case listDocuments env [Equal_searchTerm term] ds of
        Inl error \<Rightarrow> (Inl error, ds)
      | Inr result \<Rightarrow>
          (case result of
             doc # rest \<Rightarrow> updateDocument env (dollar_id doc) (js_add (count doc) 1) ds
           | [] \<Rightarrow>
               createDocument env (ID_unique ds) term 1 (id_m m)
                 (poster_template (poster_path m)) ds))"

definition updateSearchCount :: "env \<Rightarrow> string \<Rightarrow> movie \<Rightarrow> world \<Rightarrow> (exn + unit) \<times> world" where
  "updateSearchCount env term m w =
     (let w1 = emit (UpdateSearchCount term m) w
      in case updateSearchCount_try env term m (documents w1) of
           (Inl error, ds) \<Rightarrow>
             (Inr (), console_error ''Error updating search count:'' error (w1\<lparr>documents := ds\<rparr>))
         | (Inr u, ds) \<Rightarrow> (Inr (), w1\<lparr>documents := ds\<rparr>))"

text \<open>
  \<open>getTrendingMovies\<close> returns the documents, or nothing (\<^verbatim>\<open>undefined\<close>, \<open>None\<close>) after
  its \<^verbatim>\<open>catch\<close>.
\<close>

definition getTrendingMovies :: "env \<Rightarrow> world \<Rightarrow> (exn + document list option) \<times> world" where
  "getTrendingMovies env w =
     (case listDocuments env [Limit 5, OrderDesc_count] (documents w) of
        Inr result \<Rightarrow> (Inr (Some result), w)
      | Inl error \<Rightarrow> (Inr None, console_error ''Error fetching trending movies:'' error w))"

section \<open>App.jsx\<close>

text \<open>
  \<^verbatim>\<open>encodeURIComponent\<close> throws a \<open>URIError\<close> on a string with an unpaired surrogate.
  On any other string every byte outside the unreserved set becomes a percent sign and
  two upper-case hexadecimal digits.
\<close>

definition unreserved :: "char \<Rightarrow> bool" where
  "unreserved c \<longleftrightarrow>
     c \<in> set (''ABCDEFGHIJKLMNOPQRSTUVWXYZabcdefghijklmnopqrstuvwxyz0123456789-_.!~*()''
              @ [CHR 0x27])"

definition hex_digit :: "nat \<Rightarrow> char" where
  "hex_digit n = ''0123456789ABCDEF'' ! (n mod 16)"

definition percent_encode :: "char \<Rightarrow> string" where
  "percent_encode c =
     (if unreserved c then [c]
      else [CHR ''%'', hex_digit (of_char c div 16), hex_digit (of_char c mod 16)])"

definition encodeURIComponent :: "string \<Rightarrow> exn + string" where
  "encodeURIComponent s =
     (if lone_surrogate s then Inl URIError else Inr (concat (map percent_encode s)))"

definition discover_url :: string where
  "discover_url = ''https://api.themoviedb.org/3/discover/movie''"

definition search_url :: string where
  "search_url = ''https://api.themoviedb.org/3/search/movie?query=''"

text \<open>
  The conditional expression that gives \<^verbatim>\<open>endpoint\<close>: it is evaluated before the
  \<^verbatim>\<open>try\<close> block of \<open>fetchMovies\<close> is entered.
\<close>

definition endpoint_of :: "string \<Rightarrow> exn + string" where
  "endpoint_of query =
     (if query \<noteq> [] then
        (case encodeURIComponent query of
           Inl e \<Rightarrow> Inl e
         | Inr escaped \<Rightarrow> Inr (search_url @ escaped))
      else Inr discover_url)"

text \<open>
  The \<^verbatim>\<open>else\<close> branch of \<open>fetchMovies\<close>: the body does not signal a failure of its own.
\<close>

definition fetchMovies_results :: "env \<Rightarrow> string \<Rightarrow> payload \<Rightarrow> world \<Rightarrow> (exn + unit) \<times> world" where
  "fetchMovies_results env query data w =
     (let w1 = setMovieList (case results data of None \<Rightarrow> [] | Some ms \<Rightarrow> ms) w
      in if query \<noteq> [] then
           (case results data of
              None \<Rightarrow> (Inl TypeError, w1)
            | Some [] \<Rightarrow> (Inr (), w1)
            | Some (m # ms) \<Rightarrow>
                (case updateSearchCount env query m w1 of
                   (Inl err, w2) \<Rightarrow> (Inr (), console_warn ''Failed to update search count:'' err w2)
                 | (Inr u, w2) \<Rightarrow> (Inr (), w2)))
         else (Inr (), w1))"

text \<open>The body of the \<^verbatim>\<open>try\<close> block of \<open>fetchMovies\<close>.\<close>

definition fetchMovies_try :: "env \<Rightarrow> string \<Rightarrow> string \<Rightarrow> world \<Rightarrow> (exn + unit) \<times> world" where
  "fetchMovies_try env query endpoint w =
     (let w1 = emit (Fetch endpoint) w
      in case fetch env endpoint of
           Inl e \<Rightarrow> (Inl e, w1)
         | Inr response \<Rightarrow>
             if \<not> ok response then (Inl (JsError ''Failed to fetch movies''), w1)
             else
               (case json response of
                  Inl e \<Rightarrow> (Inl e, w1)
                | Inr JNull \<Rightarrow> (Inl TypeError, w1)
                | Inr (JObject data) \<Rightarrow>
                    if Response data = Str ''false'' then
                      (Inr (),
                       setMovieList []
                         (setErrorMessage (js_or (Error data) (Str ''Failed to fetch movies'')) w1))
                    else fetchMovies_results env query data w1))"

text \<open>
  \<open>fetchMovies\<close>. An exception of the endpoint expression leaves the function before its
  \<^verbatim>\<open>try\<close>, \<^verbatim>\<open>catch\<close> and \<^verbatim>\<open>finally\<close>; the effect that calls \<open>fetchMovies\<close> does not wait
  for it, so the exception ends as an unhandled rejection.
\<close>

definition fetchMovies :: "env \<Rightarrow> string \<Rightarrow> world \<Rightarrow> world" where
  "fetchMovies env query w =
     (let w1 = setIsLoading True w;
          w2 = setErrorMessage (Str '''') w1
      in case endpoint_of query of
           Inl e \<Rightarrow> emit (UnhandledRejection e) w2
         | Inr endpoint \<Rightarrow>
             (let w4 = (case fetchMovies_try env query endpoint w2 of
                          (Inl error, w3) \<Rightarrow>
                            setErrorMessage (Str ''Error fetching movies. Please try again later.'')
                              (console_error ''Error fetching movies:'' error w3)
                        | (Inr u, w3) \<Rightarrow> w3)
              in setIsLoading False w4))"

definition loadTrendingMovies :: "env \<Rightarrow> world \<Rightarrow> world" where
  "loadTrendingMovies env w =
     (let w1 = setIsTrendingLoading True w;
          w3 = (case getTrendingMovies env w1 of
                  (Inr movies, w2) \<Rightarrow> setTtendingMovies movies w2
                | (Inl error, w2) \<Rightarrow>
                    console_error ''Error fetching trending movies: '' error w2)
      in setIsTrendingLoading False w3)"

text \<open>
  The two conditional sections of the rendered page. Reading \<^verbatim>\<open>length\<close> of
  \<^verbatim>\<open>undefined\<close> raises.
\<close>

datatype trending_view = TrendingSpinner | TrendingList "document list" | TrendingNothing

definition render_trending :: "world \<Rightarrow> exn + trending_view" where
  "render_trending w =
     (if isTrendingLoading w then Inr TrendingSpinner
      else case trandingMovies w of
             None \<Rightarrow> Inl TypeError
           | Some ds \<Rightarrow> if length ds > 0 then Inr (TrendingList ds) else Inr TrendingNothing)"

datatype movies_view = MoviesSpinner | MoviesError jsval | MoviesList "movie list"

definition render_all_movies :: "world \<Rightarrow> movies_view" where
  "render_all_movies w =
     (if isLoading w then MoviesSpinner
      else if truthy (errorMessage w) then MoviesError (errorMessage w)
      else MoviesList (movieList w))"

section \<open>Reading the trace\<close>

fun calls_of :: "event list \<Rightarrow> (string \<times> movie) list" where
  "calls_of [] = []"
| "calls_of (UpdateSearchCount t m # es) = (t, m) # calls_of es"
| "calls_of (e # es) = calls_of es"

fun requests_of :: "event list \<Rightarrow> string list" where
  "requests_of [] = []"
| "requests_of (Fetch u # es) = u # requests_of es"
| "requests_of (e # es) = requests_of es"

section \<open>Reading an escaped text\<close>

text \<open>
  What an escaped text stands for: a percent sign with the two hexadecimal digits after
  it is the byte with that value, any other character is itself.
\<close>

definition hex_value :: "char \<Rightarrow> nat" where
  "hex_value c =
     (if (of_char c :: nat) \<le> of_char (CHR ''9'') then of_char c - of_char (CHR ''0'')
      else 10 + (of_char c - of_char (CHR ''A'')))"

fun percent_decode :: "string \<Rightarrow> string" where
  "percent_decode [] = []"
| "percent_decode [c] = [c]"
| "percent_decode [c, a] = c # percent_decode [a]"
| "percent_decode (c # a # b # s) =
     (if c = CHR ''%'' then char_of (hex_value a * 16 + hex_value b) # percent_decode s
      else c # percent_decode (a # b # s))"

section \<open>Scenarios\<close>

text \<open>The state the component starts in, over a given collection.\<close>

definition initial_world :: "document list \<Rightarrow> world" where
  "initial_world ds =
     \<lparr>movieList = [], errorMessage = Str '''', isLoading = False, isTrendingLoading = False,
      trandingMovies = Some [], documents = ds, trace = []\<rparr>"

definition batman :: movie where
  "batman = \<lparr>id_m = 1, title = ''Batman'', poster_path = Some ''/x.jpg''\<rparr>"

definition joker :: movie where
  "joker = \<lparr>id_m = 2, title = ''Joker'', poster_path = None\<rparr>"

definition batman_record :: "nat \<Rightarrow> int \<Rightarrow> document" where
  "batman_record i c =
     \<lparr>dollar_id = i, searchTerm = ''batman'', count = c, movie_id = 1,
      poster_url = ''https://image.tmdb.org/t/p/w500/x.jpg''\<rparr>"

text \<open>A query that is one unpaired high surrogate, the code unit \<open>0xD800\<close>.\<close>

definition unpaired_surrogate :: string where
  "unpaired_surrogate = [CHR 0xED, CHR 0xA0, CHR 0x80]"

text \<open>A catalog that answers every request with status 200 and the given body.\<close>

definition catalog_body :: "json_body \<Rightarrow> string \<Rightarrow> exn + response" where
  "catalog_body b = (\<lambda>u. Inr \<lparr>ok = True, json = Inr b\<rparr>)"

definition catalog_results :: "movie list \<Rightarrow> string \<Rightarrow> exn + response" where
  "catalog_results ms =
     catalog_body (JObject \<lparr>Response = Undefined, Error = Undefined, results = Some ms\<rparr>)"

definition catalog_inband :: "jsval \<Rightarrow> string \<Rightarrow> exn + response" where
  "catalog_inband e =
     catalog_body (JObject \<lparr>Response = Str ''false'', Error = e, results = None\<rparr>)"

definition catalog_no_results :: "string \<Rightarrow> exn + response" where
  "catalog_no_results =
     catalog_body (JObject \<lparr>Response = Undefined, Error = Undefined, results = None\<rparr>)"

text \<open>A catalog that answers every request with a status outside 200 to 299.\<close>

definition catalog_status_500 :: "string \<Rightarrow> exn + response" where
  "catalog_status_500 = (\<lambda>u. Inr \<lparr>ok = False, json = Inl SyntaxError\<rparr>)"

text \<open>
  A database whose calls all succeed, one whose server rejects every call, one that
  cannot be reached, and one that performs every write and then loses the answer.
\<close>

definition db_up :: "db_op \<Rightarrow> failure option" where
  "db_up = (\<lambda>op. None)"

definition db_down :: "db_op \<Rightarrow> failure option" where
  "db_down = (\<lambda>op. Some (Rejects AppwriteException))"

definition db_unreachable :: "db_op \<Rightarrow> failure option" where
  "db_unreachable = (\<lambda>op. Some (Rejects TypeError))"

definition db_answer_lost :: "db_op \<Rightarrow> failure option" where
  "db_answer_lost = (\<lambda>op. case op of ListDocuments \<Rightarrow> None | _ \<Rightarrow> Some (RejectsAfterWrite TypeError))"

section \<open>Auxiliary facts\<close>

lemmas setters = emit_def setIsLoading_def setErrorMessage_def setMovieList_def
  setIsTrendingLoading_def setTtendingMovies_def console_error_def console_warn_def

lemmas scenarios = batman_def joker_def batman_record_def catalog_body_def catalog_results_def
  catalog_inband_def catalog_no_results_def catalog_status_500_def db_up_def db_down_def
  db_unreachable_def db_answer_lost_def initial_world_def unpaired_surrogate_def

lemma calls_of_append: "calls_of (xs @ ys) = calls_of xs @ calls_of ys"
  by (induction xs rule: calls_of.induct) simp_all

lemma requests_of_append: "requests_of (xs @ ys) = requests_of xs @ requests_of ys"
  by (induction xs rule: requests_of.induct) simp_all

text \<open>Adding one is exact as long as the sum stays within 53 bits.\<close>

lemma to_double_safe: "\<bar>n\<bar> \<le> 2 ^ 53 \<Longrightarrow> to_double n = n"
  by (simp add: to_double_def)

lemma js_add_one_safe:
  assumes "- (2 ^ 53) \<le> n" and "n < 2 ^ 53"
  shows "js_add n 1 = n + 1"
proof -
  have "to_double n = n" using assms by (intro to_double_safe) simp
  moreover have "to_double 1 = 1" by (intro to_double_safe) simp
  moreover have "to_double (n + 1) = n + 1" using assms by (intro to_double_safe) simp
  ultimately show ?thesis by (simp add: js_add_def)
qed

lemma listDocuments_equal:
  "db_fails env ListDocuments = None \<Longrightarrow>
   listDocuments env [Equal_searchTerm term] ds = Inr (filter (\<lambda>d. searchTerm d = term) ds)"
  by (simp add: listDocuments_def)


lemma ID_unique_fresh: "ID_unique ds \<notin> set (map dollar_id ds)"
proof
  assume "ID_unique ds \<in> set (map dollar_id ds)"
  then have "ID_unique ds \<le> Max (insert 0 (set (map dollar_id ds)))"
    by (intro Max_ge) auto
  then show False by (simp add: ID_unique_def)
qed

lemma first_match_index:
  assumes "filter P ds = d # rest"
  shows "\<exists>i<length ds. ds ! i = d \<and> P d \<and> (\<forall>j<i. \<not> P (ds ! j))"
proof -
  from assms obtain us vs where ds: "ds = us @ d # vs" and us: "\<forall>u\<in>set us. \<not> P u" and d: "P d"
    by (auto simp: filter_eq_Cons_iff)
  have "length us < length ds" using ds by simp
  moreover have "ds ! length us = d" using ds by simp
  moreover have "\<forall>j<length us. \<not> P (ds ! j)" using ds us by (simp add: nth_append)
  ultimately show ?thesis using d by blast
qed

lemma update_by_id_distinct:
  assumes "distinct (map dollar_id ds)" and "i < length ds"
  shows "map (\<lambda>x. if dollar_id x = dollar_id (ds ! i) then f x else x) ds = ds[i := f (ds ! i)]"
proof (rule nth_equalityI)
  show "length (map (\<lambda>x. if dollar_id x = dollar_id (ds ! i) then f x else x) ds) = length (ds[i := f (ds ! i)])"
    by simp
next
  fix j assume "j < length (map (\<lambda>x. if dollar_id x = dollar_id (ds ! i) then f x else x) ds)"
  then have j: "j < length ds" by simp
  have "dollar_id (ds ! j) = dollar_id (ds ! i) \<longleftrightarrow> j = i"
    using assms j nth_eq_iff_index_eq [of "map dollar_id ds" j i] by simp
  then show "map (\<lambda>x. if dollar_id x = dollar_id (ds ! i) then f x else x) ds ! j = ds[i := f (ds ! i)] ! j"
    using j by (auto simp: nth_list_update)
qed

lemma update_by_fresh_id:
  "i \<notin> set (map dollar_id ds) \<Longrightarrow> map (\<lambda>x. if dollar_id x = i then f x else x) ds = ds"
  by (induction ds) auto

lemma count_update_keeps_ids:
  "map dollar_id (map (\<lambda>x. if dollar_id x = i then x\<lparr>count := c\<rparr> else x) ds) =
     map dollar_id ds"
  by (induction ds) simp_all

text \<open>What the try block does to the collection when no call fails.\<close>

lemma updateSearchCount_try_existing:
  assumes "\<forall>op. db_fails env op = None" and "filter (\<lambda>d. searchTerm d = term) ds = d # rest"
  shows "updateSearchCount_try env term m ds =
           (Inr (), map (\<lambda>x. if dollar_id x = dollar_id d
                               then x\<lparr>count := js_add (count d) 1\<rparr> else x) ds)"
proof -
  have "d \<in> set (filter (\<lambda>d. searchTerm d = term) ds)" using assms(2) by simp
  then have "d \<in> set ds" by simp
  then show ?thesis using assms
    by (simp add: updateSearchCount_try_def listDocuments_equal updateDocument_def Let_def)
qed

lemma updateSearchCount_try_fresh:
  assumes "\<forall>op. db_fails env op = None" and "filter (\<lambda>d. searchTerm d = term) ds = []"
  shows "updateSearchCount_try env term m ds =
           (Inr (), ds @ [\<lparr>dollar_id = ID_unique ds, searchTerm = term, count = 1,
                             movie_id = id_m m, poster_url = poster_template (poster_path m)\<rparr>])"
  using assms ID_unique_fresh [of ds]
  by (simp add: updateSearchCount_try_def listDocuments_equal createDocument_def Let_def)

text \<open>With a document for the term, the collection is left as it was or with one count written.\<close>

lemma updateSearchCount_try_existing_result:
  assumes "filter (\<lambda>d. searchTerm d = term) ds = d # rest"
  shows "snd (updateSearchCount_try env term m ds) = ds \<or>
         snd (updateSearchCount_try env term m ds) =
           map (\<lambda>x. if dollar_id x = dollar_id d then x\<lparr>count := js_add (count d) 1\<rparr> else x) ds"
  using assms
  by (auto simp: updateSearchCount_try_def listDocuments_def updateDocument_def Let_def
      split: option.splits failure.splits)

lemma updateSearchCount_documents:
  "documents (snd (updateSearchCount env term m w)) =
     snd (updateSearchCount_try env term m (documents w))"
  by (simp add: updateSearchCount_def Let_def setters split: prod.splits sum.splits)



lemma updateSearchCount_frame:
  "movieList (snd (updateSearchCount env term m w)) = movieList w"
  "errorMessage (snd (updateSearchCount env term m w)) = errorMessage w"
  "isLoading (snd (updateSearchCount env term m w)) = isLoading w"
  "isTrendingLoading (snd (updateSearchCount env term m w)) = isTrendingLoading w"
  "trandingMovies (snd (updateSearchCount env term m w)) = trandingMovies w"
  by (simp_all add: updateSearchCount_def Let_def setters split: prod.splits sum.splits)

text \<open>The ids of the collection stay distinct.\<close>

lemma updateSearchCount_keeps_ids_distinct:
  assumes "distinct (map dollar_id (documents w))"
  shows "distinct (map dollar_id (documents (snd (updateSearchCount env term m w))))"
proof -
  let ?ds = "documents w"
  let ?ds' = "snd (updateSearchCount_try env term m ?ds)"
  have "map dollar_id ?ds' = map dollar_id ?ds \<or>
      (\<exists>d. ?ds' = ?ds @ [d] \<and> dollar_id d \<notin> set (map dollar_id ?ds))"
    by (auto simp: updateSearchCount_try_def listDocuments_def updateDocument_def
        createDocument_def Let_def count_update_keeps_ids simp del: map_map
        split: sum.splits list.splits option.splits failure.splits)
  then have "distinct (map dollar_id ?ds')" using assms by auto
  then show ?thesis by (simp add: updateSearchCount_documents)
qed

section \<open>The analytics store\<close>

text \<open>
  Claim C4 says that the count of an existing record grows by exactly 1. The count is a
  JavaScript number. At 9007199254740992, which is two to the power 53, the sum with 1
  rounds back to the same number: every database call succeeds, nothing is logged, and
  the record keeps its count.
\<close>

theorem updateSearchCount_exact_increment_counterexample:
  "filter (\<lambda>d. searchTerm d = ''batman'') [batman_record 1 9007199254740992] =
     [batman_record 1 9007199254740992]
   \<and> documents (snd (updateSearchCount \<lparr>fetch = catalog_results [batman], db_fails = db_up\<rparr>
        ''batman'' batman (initial_world [batman_record 1 9007199254740992]))) =
     [batman_record 1 9007199254740992]
   \<and> trace (snd (updateSearchCount \<lparr>fetch = catalog_results [batman], db_fails = db_up\<rparr>
        ''batman'' batman (initial_world [batman_record 1 9007199254740992]))) =
     [UpdateSearchCount ''batman'' batman]"
  by (simp add: updateSearchCount_def updateSearchCount_try_def listDocuments_def
      updateDocument_def Let_def setters scenarios js_add_def to_double_def bit_length.simps)

text \<open>
  Claim C4, as the code has it. When no database call fails and the ids of the collection
  are distinct, \<open>updateSearchCount\<close> looks for the documents whose \<open>searchTerm\<close> is
  exactly the term. If there is none it appends one document with count 1, the movie's
  id, and the image-host prefix followed by the movie's poster path (by the text \<open>null\<close>
  when the path is \<^verbatim>\<open>null\<close>), and a second call with the same term then leaves exactly
  one document for the term, with count 2. If there is one and the count of the first
  such document is at least minus two to the power 53 and below two to the power 53, that
  document gets its count increased by exactly 1 and the collection is otherwise the same.
\<close>

theorem updateSearchCount_increments_or_creates:
  assumes "\<forall>op. db_fails env op = None" and "\<forall>op. db_fails env' op = None"
    and "distinct (map dollar_id (documents w))"
  shows "case filter (\<lambda>d. searchTerm d = term) (documents w) of
           [] \<Rightarrow>
             documents (snd (updateSearchCount env term m w)) =
               documents w @
                 [\<lparr>dollar_id = ID_unique (documents w), searchTerm = term, count = 1,
                   movie_id = id_m m,
                   poster_url = ''https://image.tmdb.org/t/p/w500'' @
                     (case poster_path m of None \<Rightarrow> ''null'' | Some p \<Rightarrow> p)\<rparr>]
             \<and> filter (\<lambda>d. searchTerm d = term)
                 (documents (snd (updateSearchCount env' term m'
                    (snd (updateSearchCount env term m w))))) =
                 [\<lparr>dollar_id = ID_unique (documents w), searchTerm = term, count = 2,
                   movie_id = id_m m,
                   poster_url = ''https://image.tmdb.org/t/p/w500'' @
                     (case poster_path m of None \<Rightarrow> ''null'' | Some p \<Rightarrow> p)\<rparr>]
         | d # rest \<Rightarrow>
             - (2 ^ 53) \<le> count d \<and> count d < 2 ^ 53 \<longrightarrow>
             (\<exists>i<length (documents w).
                documents w ! i = d \<and> (\<forall>j<i. searchTerm (documents w ! j) \<noteq> term) \<and>
                documents (snd (updateSearchCount env term m w)) =
                  (documents w)[i := d\<lparr>count := count d + 1\<rparr>])"
proof (cases "filter (\<lambda>d. searchTerm d = term) (documents w)")
  case Nil
  let ?new = "\<lparr>dollar_id = ID_unique (documents w), searchTerm = term, count = 1,
                movie_id = id_m m, poster_url = poster_template (poster_path m)\<rparr>"
  let ?w1 = "snd (updateSearchCount env term m w)"
  have first: "documents ?w1 = documents w @ [?new]"
    using assms(1) Nil
    by (simp add: updateSearchCount_documents updateSearchCount_try_fresh)
  have found: "filter (\<lambda>d. searchTerm d = term) (documents ?w1) = [?new]"
    using Nil by (simp add: first)
  have two: "js_add (count ?new) 1 = 2"
    using js_add_one_safe [of 1] by simp
  have "documents (snd (updateSearchCount env' term m' ?w1)) =
          snd (updateSearchCount_try env' term m' (documents ?w1))"
    by (rule updateSearchCount_documents)
  also have "\<dots> =
          map (\<lambda>x. if dollar_id x = dollar_id ?new
                    then x\<lparr>count := js_add (count ?new) 1\<rparr> else x)
            (documents ?w1)"
    by (simp only: updateSearchCount_try_existing [OF assms(2) found] snd_conv)
  also have "\<dots> = documents w @ [?new\<lparr>count := 2\<rparr>]"
    using ID_unique_fresh [of "documents w"] two by (simp add: first update_by_fresh_id)
  finally have second: "documents (snd (updateSearchCount env' term m' ?w1)) =
      documents w @ [?new\<lparr>count := 2\<rparr>]" .
  show ?thesis
    using Nil first
    by (simp add: second poster_template_def template_text_def split: option.splits)
next
  case (Cons d rest)
  have "\<exists>i<length (documents w).
          documents w ! i = d \<and> (\<forall>j<i. searchTerm (documents w ! j) \<noteq> term) \<and>
          documents (snd (updateSearchCount env term m w)) =
            (documents w)[i := d\<lparr>count := count d + 1\<rparr>]"
    if safe: "- (2 ^ 53) \<le> count d" "count d < 2 ^ 53"
  proof -
    from first_match_index [OF Cons] obtain i where i: "i < length (documents w)"
      and d: "documents w ! i = d" and before: "\<forall>j<i. searchTerm (documents w ! j) \<noteq> term"
      by blast
    have "documents (snd (updateSearchCount env term m w)) =
            map (\<lambda>x. if dollar_id x = dollar_id d
                      then x\<lparr>count := js_add (count d) 1\<rparr> else x) (documents w)"
      using assms(1) Cons
      by (simp add: updateSearchCount_documents updateSearchCount_try_existing)
    also have "\<dots> = map (\<lambda>x. if dollar_id x = dollar_id d
                      then x\<lparr>count := count d + 1\<rparr> else x) (documents w)"
      by (simp add: js_add_one_safe [OF safe])
    also have "\<dots> = (documents w)[i := d\<lparr>count := count d + 1\<rparr>]"
      using update_by_id_distinct [OF assms(3) i, of "\<lambda>x. x\<lparr>count := count d + 1\<rparr>"] d by simp
    finally show ?thesis using i d before by blast
  qed
  then show ?thesis using Cons by simp
qed

theorem updateSearchCount_increments_or_creates_witness:
  "documents (snd (updateSearchCount \<lparr>fetch = catalog_results [batman], db_fails = db_up\<rparr>
      ''batman'' batman (initial_world []))) = [batman_record 1 1]
   \<and> filter (\<lambda>d. searchTerm d = ''batman'')
       (documents (snd (updateSearchCount \<lparr>fetch = catalog_results [joker], db_fails = db_up\<rparr>
          ''batman'' joker
          (snd (updateSearchCount \<lparr>fetch = catalog_results [batman], db_fails = db_up\<rparr>
             ''batman'' batman (initial_world []))))))
     = [batman_record 1 2]
   \<and> documents (snd (updateSearchCount \<lparr>fetch = catalog_results [joker], db_fails = db_up\<rparr>
      ''joker'' joker (initial_world []))) =
     [\<lparr>dollar_id = 1, searchTerm = ''joker'', count = 1, movie_id = 2,
       poster_url = ''https://image.tmdb.org/t/p/w500null''\<rparr>]
   \<and> documents (snd (updateSearchCount \<lparr>fetch = catalog_results [joker], db_fails = db_up\<rparr>
      ''batman'' joker (initial_world [batman_record 7 3]))) = [batman_record 7 4]"
  using updateSearchCount_increments_or_creates
    [of "\<lparr>fetch = catalog_results [batman], db_fails = db_up\<rparr>"
        "\<lparr>fetch = catalog_results [joker], db_fails = db_up\<rparr>"
        "initial_world []" "''batman''" batman joker]
    updateSearchCount_increments_or_creates
    [of "\<lparr>fetch = catalog_results [joker], db_fails = db_up\<rparr>"
        "\<lparr>fetch = catalog_results [joker], db_fails = db_up\<rparr>"
        "initial_world []" "''joker''" joker joker]
    updateSearchCount_increments_or_creates
    [of "\<lparr>fetch = catalog_results [joker], db_fails = db_up\<rparr>"
        "\<lparr>fetch = catalog_results [joker], db_fails = db_up\<rparr>"
        "initial_world [batman_record 7 3]" "''batman''" joker joker]
  by (simp add: scenarios ID_unique_def)

text \<open>
  Claim C9. When a document for the term exists, \<open>updateSearchCount\<close> leaves the id, the
  search term, the movie id and the poster URL of every document as they were, whatever
  movie it is called with and whatever the database calls do. When the ids are distinct,
  the collection is either left as it was or differs only in the count of the first
  document for the term, which is then the JavaScript sum of the old count and 1; when
  no database call fails it is the latter.
\<close>

theorem updateSearchCount_existing_changes_count_only:
  assumes "filter (\<lambda>d. searchTerm d = term) (documents w) = d # rest"
  shows "map dollar_id (documents (snd (updateSearchCount env term m w))) = map dollar_id (documents w)
       \<and> map searchTerm (documents (snd (updateSearchCount env term m w))) = map searchTerm (documents w)
       \<and> map movie_id (documents (snd (updateSearchCount env term m w))) = map movie_id (documents w)
       \<and> map poster_url (documents (snd (updateSearchCount env term m w))) = map poster_url (documents w)
       \<and> (distinct (map dollar_id (documents w)) \<longrightarrow>
            (\<exists>i<length (documents w). documents w ! i = d \<and>
               (documents (snd (updateSearchCount env term m w)) = documents w \<or>
                documents (snd (updateSearchCount env term m w)) =
                  (documents w)[i := d\<lparr>count := js_add (count d) 1\<rparr>])))
       \<and> ((\<forall>op. db_fails env op = None) \<and> distinct (map dollar_id (documents w)) \<longrightarrow>
            (\<exists>i<length (documents w). documents w ! i = d \<and>
               documents (snd (updateSearchCount env term m w)) =
                 (documents w)[i := d\<lparr>count := js_add (count d) 1\<rparr>]))"
proof -
  let ?ds = "documents w"
  let ?ds' = "documents (snd (updateSearchCount env term m w))"
  let ?upd = "map (\<lambda>x. if dollar_id x = dollar_id d
                        then x\<lparr>count := js_add (count d) 1\<rparr> else x) ?ds"
  have either: "?ds' = ?ds \<or> ?ds' = ?upd"
    using updateSearchCount_try_existing_result [OF assms, of env m]
    by (simp add: updateSearchCount_documents)
  have "map dollar_id ?upd = map dollar_id ?ds" "map searchTerm ?upd = map searchTerm ?ds"
    "map movie_id ?upd = map movie_id ?ds" "map poster_url ?upd = map poster_url ?ds"
    by simp_all
  then have frame: "map dollar_id ?ds' = map dollar_id ?ds" "map searchTerm ?ds' = map searchTerm ?ds"
    "map movie_id ?ds' = map movie_id ?ds" "map poster_url ?ds' = map poster_url ?ds"
    using either by auto
  from first_match_index [OF assms] obtain i where i: "i < length ?ds" and d: "?ds ! i = d"
    by blast
  have upd: "?upd = ?ds[i := d\<lparr>count := js_add (count d) 1\<rparr>]"
    if ids: "distinct (map dollar_id ?ds)"
    using update_by_id_distinct [OF ids i, of "\<lambda>x. x\<lparr>count := js_add (count d) 1\<rparr>"] d by simp
  have any: "\<exists>i<length ?ds. ?ds ! i = d \<and>
      (?ds' = ?ds \<or> ?ds' = ?ds[i := d\<lparr>count := js_add (count d) 1\<rparr>])"
    if ids: "distinct (map dollar_id ?ds)"
    using either upd [OF ids] i d by auto
  have up: "\<exists>i<length ?ds. ?ds ! i = d \<and> ?ds' = ?ds[i := d\<lparr>count := js_add (count d) 1\<rparr>]"
    if ok: "\<forall>op. db_fails env op = None" and ids: "distinct (map dollar_id ?ds)"
  proof -
    have "?ds' = ?upd"
      using ok assms by (simp add: updateSearchCount_documents updateSearchCount_try_existing)
    then show ?thesis using upd [OF ids] i d by auto
  qed
  from frame any up show ?thesis by blast
qed

theorem updateSearchCount_existing_changes_count_only_witness:
  "filter (\<lambda>d. searchTerm d = ''batman'') [batman_record 7 3] = [batman_record 7 3]
   \<and> documents (snd (updateSearchCount \<lparr>fetch = catalog_results [joker], db_fails = db_up\<rparr>
        ''batman'' joker (initial_world [batman_record 7 3]))) = [batman_record 7 4]"
proof -
  have h: "filter (\<lambda>d. searchTerm d = ''batman'') (documents (initial_world [batman_record 7 3]))
      = batman_record 7 3 # []"
    by (simp add: scenarios)
  have four: "js_add 3 1 = 4" using js_add_one_safe [of 3] by simp
  show ?thesis
    using updateSearchCount_existing_changes_count_only
      [OF h, of "\<lparr>fetch = catalog_results [joker], db_fails = db_up\<rparr>" joker] four
    by (simp add: scenarios)
qed

section \<open>The search cycle\<close>

text \<open>The endpoint expression.\<close>

lemma lone_surrogate_not_empty: "lone_surrogate query \<Longrightarrow> query \<noteq> []"
  by auto

lemma endpoint_of_lone_surrogate: "lone_surrogate query \<Longrightarrow> endpoint_of query = Inl URIError"
  using lone_surrogate_not_empty [of query]
  by (simp add: endpoint_of_def encodeURIComponent_def)

lemma endpoint_of_well_formed:
  "\<not> lone_surrogate query \<Longrightarrow>
   endpoint_of query =
     Inr (if query = [] then discover_url else search_url @ concat (map percent_encode query))"
  by (simp add: endpoint_of_def encodeURIComponent_def)

lemma endpoint_of_throws_iff: "(\<exists>e. endpoint_of query = Inl e) \<longleftrightarrow> lone_surrogate query"
  by (cases "lone_surrogate query")
    (simp_all add: endpoint_of_lone_surrogate endpoint_of_well_formed)

text \<open>The search cycle, by the outcome of its request.\<close>

lemma fetchMovies_unhandled:
  assumes "endpoint_of query = Inl e"
  shows "fetchMovies env query w =
           emit (UnhandledRejection e) (setErrorMessage (Str []) (setIsLoading True w))"
  using assms by (simp add: fetchMovies_def Let_def)

lemma fetchMovies_try_parsed:
  assumes "fetch env endpoint = Inr r" and "ok r" and "json r = Inr (JObject data)"
  shows "fetchMovies_try env query endpoint w =
           (if Response data = Str ''false'' then
              (Inr (), setMovieList []
                 (setErrorMessage (js_or (Error data) (Str ''Failed to fetch movies''))
                    (emit (Fetch endpoint) w)))
            else fetchMovies_results env query data (emit (Fetch endpoint) w))"
  using assms by (simp add: fetchMovies_try_def Let_def)

lemma fetchMovies_try_thrown:
  assumes "fetch env endpoint = Inl e \<or>
           (\<exists>r. fetch env endpoint = Inr r \<and> (\<not> ok r \<or> json r = Inl e \<or> json r = Inr JNull))"
  shows "\<exists>e'. fetchMovies_try env query endpoint w = (Inl e', emit (Fetch endpoint) w)"
  using assms by (auto simp: fetchMovies_try_def Let_def)

lemma fetchMovies_parsed:
  assumes "endpoint_of query = Inr url" and "fetch env url = Inr r" and "ok r"
    and "json r = Inr (JObject data)"
  shows "fetchMovies env query w =
     setIsLoading False
       (case (if Response data = Str ''false'' then
                (Inr (), setMovieList []
                   (setErrorMessage (js_or (Error data) (Str ''Failed to fetch movies''))
                      (emit (Fetch url) (setErrorMessage (Str []) (setIsLoading True w)))))
              else fetchMovies_results env query data
                     (emit (Fetch url) (setErrorMessage (Str []) (setIsLoading True w)))) of
          (Inl error, w3) \<Rightarrow>
            setErrorMessage (Str ''Error fetching movies. Please try again later.'')
              (console_error ''Error fetching movies:'' error w3)
        | (Inr u, w3) \<Rightarrow> w3)"
  by (simp only: fetchMovies_def Let_def assms(1) sum.case
      fetchMovies_try_parsed [OF assms(2-4)])

lemma fetchMovies_thrown:
  assumes "endpoint_of query = Inr url"
    and "fetch env url = Inl e \<or>
         (\<exists>r. fetch env url = Inr r \<and> (\<not> ok r \<or> json r = Inl e \<or> json r = Inr JNull))"
  shows "movieList (fetchMovies env query w) = movieList w
       \<and> errorMessage (fetchMovies env query w) =
           Str ''Error fetching movies. Please try again later.''"
proof -
  from fetchMovies_try_thrown [OF assms(2)]
  obtain e' where "fetchMovies_try env query url
      (setErrorMessage (Str []) (setIsLoading True w)) =
      (Inl e', emit (Fetch url) (setErrorMessage (Str []) (setIsLoading True w)))"
    by blast
  then show ?thesis
    using assms(1) by (simp add: fetchMovies_def Let_def setters)
qed

lemma fetchMovies_results_calls:
  "calls_of (trace (snd (fetchMovies_results env query data w))) =
     calls_of (trace w) @
       (case results data of
          Some (m # ms) \<Rightarrow> if query \<noteq> [] then [(query, m)] else []
        | _ \<Rightarrow> [])"
  by (simp add: fetchMovies_results_def Let_def setters calls_of_append
      updateSearchCount_def
      split: option.splits list.splits sum.splits prod.splits)

text \<open>
  Claim C5. In a search cycle whose request is sent and whose response has a success
  status and a body that parses to an object not signalling a failure of its own,
  \<open>updateSearchCount\<close> is called exactly once, with the query and the first result, when
  the query is non-empty and the result list is non-empty; it is not called when the list
  is empty or missing, nor when the query is empty.
\<close>

theorem fetchMovies_records_search_once:
  assumes "endpoint_of query = Inr url" and "fetch env url = Inr r" and "ok r"
    and "json r = Inr (JObject data)" and "Response data \<noteq> Str ''false''"
  shows "calls_of (trace (fetchMovies env query w)) =
           calls_of (trace w) @
             (case results data of
                Some (m # ms) \<Rightarrow> if query \<noteq> [] then [(query, m)] else []
              | _ \<Rightarrow> [])"
proof -
  let ?w2 = "emit (Fetch url) (setErrorMessage (Str []) (setIsLoading True w))"
  obtain res w3 where run: "fetchMovies_results env query data ?w2 = (res, w3)"
    by (cases "fetchMovies_results env query data ?w2")
  have "calls_of (trace w3) =
          calls_of (trace ?w2) @
            (case results data of
               Some (m # ms) \<Rightarrow> if query \<noteq> [] then [(query, m)] else []
             | _ \<Rightarrow> [])"
    using fetchMovies_results_calls [of env query data ?w2] by (simp add: run)
  moreover have "calls_of (trace ?w2) = calls_of (trace w)"
    by (simp add: setters calls_of_append)
  moreover have "fetchMovies env query w =
      setIsLoading False
        (case res of
           Inl error \<Rightarrow>
             setErrorMessage (Str ''Error fetching movies. Please try again later.'')
               (console_error ''Error fetching movies:'' error w3)
         | Inr u \<Rightarrow> w3)"
    using assms(5) by (simp add: fetchMovies_parsed [OF assms(1-4)] run split: sum.splits)
  then have "calls_of (trace (fetchMovies env query w)) = calls_of (trace w3)"
    by (cases res) (simp_all add: setters calls_of_append)
  ultimately show ?thesis by simp
qed

theorem fetchMovies_records_search_once_witness:
  "calls_of (trace (fetchMovies \<lparr>fetch = catalog_results [batman, joker], db_fails = db_up\<rparr>
      ''batman'' (initial_world []))) = [(''batman'', batman)]
   \<and> calls_of (trace (fetchMovies \<lparr>fetch = catalog_results [batman, joker], db_fails = db_up\<rparr>
      [] (initial_world []))) = []
   \<and> calls_of (trace (fetchMovies \<lparr>fetch = catalog_results [], db_fails = db_up\<rparr>
      ''batman'' (initial_world []))) = []"
proof -
  let ?data = "\<lambda>ms. \<lparr>Response = Undefined, Error = Undefined, results = Some ms\<rparr>"
  let ?r = "\<lambda>ms. \<lparr>ok = True, json = Inr (JObject (?data ms))\<rparr>"
  have q1: "endpoint_of ''batman'' = Inr (search_url @ ''batman'')"
    by (simp add: endpoint_of_def encodeURIComponent_def percent_encode_def unreserved_def)
  have q2: "endpoint_of [] = Inr discover_url"
    by (simp add: endpoint_of_def)
  have a: "fetch \<lparr>fetch = catalog_results ms, db_fails = db_up\<rparr> u = Inr (?r ms)"
    for ms u by (simp add: scenarios)
  have b: "ok (?r ms)" for ms by simp
  have c: "json (?r ms) = Inr (JObject (?data ms))" for ms by simp
  have d: "Response (?data ms) \<noteq> Str ''false''" for ms by simp
  show ?thesis
    using fetchMovies_records_search_once [OF q1 a b c d, of "[batman, joker]" "initial_world []"]
      fetchMovies_records_search_once [OF q2 a b c d, of "[batman, joker]" "initial_world []"]
      fetchMovies_records_search_once [OF q1 a b c d, of "[]" "initial_world []"]
    by (simp add: scenarios)
qed






text \<open>
  Claim C1 says that every failure of the catalog fetch clears the result list. After a
  cycle that listed one movie, a cycle whose response has status 500 sets the generic
  message and leaves that movie in the result list; only the branch for a failure
  signalled in the body calls \<open>setMovieList\<close> with the empty list.
\<close>

theorem fetchMovies_status_500_keeps_movieList:
  "movieList (fetchMovies \<lparr>fetch = catalog_results [joker], db_fails = db_up\<rparr> []
      (initial_world [])) = [joker]
   \<and> movieList (fetchMovies \<lparr>fetch = catalog_status_500, db_fails = db_up\<rparr> ''batman''
       (fetchMovies \<lparr>fetch = catalog_results [joker], db_fails = db_up\<rparr> []
          (initial_world []))) = [joker]
   \<and> errorMessage (fetchMovies \<lparr>fetch = catalog_status_500, db_fails = db_up\<rparr> ''batman''
       (fetchMovies \<lparr>fetch = catalog_results [joker], db_fails = db_up\<rparr> []
          (initial_world []))) = Str ''Error fetching movies. Please try again later.''"
proof -
  let ?w1 = "fetchMovies \<lparr>fetch = catalog_results [joker], db_fails = db_up\<rparr> [] (initial_world [])"
  have first: "movieList ?w1 = [joker]"
    by (simp add: fetchMovies_def fetchMovies_try_def fetchMovies_results_def endpoint_of_def
        Let_def setters scenarios)
  have q: "endpoint_of ''batman'' = Inr (search_url @ ''batman'')"
    by (simp add: endpoint_of_def encodeURIComponent_def percent_encode_def unreserved_def)
  have "fetch \<lparr>fetch = catalog_status_500, db_fails = db_up\<rparr> u = Inl e \<or>
        (\<exists>r. fetch \<lparr>fetch = catalog_status_500, db_fails = db_up\<rparr> u = Inr r \<and>
             (\<not> ok r \<or> json r = Inl e \<or> json r = Inr JNull))" for e u
    by (simp add: scenarios)
  from fetchMovies_thrown [OF q this, of ?w1] first show ?thesis by simp
qed

section \<open>The request of a search cycle\<close>

text \<open>Escaping: the alphabet of the escaped text, and reading it back.\<close>

lemma hex_digit_cases:
  "n mod 16 \<in> {0, 1, 2, 3, 4, 5, 6, 7, 8, 9, 10, 11, 12, 13, 14, 15 :: nat}"
proof -
  have "n mod 16 < 16" by simp
  then show ?thesis by simp arith
qed

lemma hex_digit_unreserved: "unreserved (hex_digit n)"
  using hex_digit_cases [of n] unfolding hex_digit_def unreserved_def by auto

lemma hex_value_hex_digit: "hex_value (hex_digit n) = n mod 16"
  using hex_digit_cases [of n] unfolding hex_digit_def hex_value_def by auto

lemma percent_not_unreserved: "\<not> unreserved (CHR ''%'')"
  by (simp add: unreserved_def)

lemma byte_of_hex_digits:
  "char_of (hex_value (hex_digit (of_char c div 16)) * 16 +
            hex_value (hex_digit (of_char c mod 16))) = c"
proof -
  have "(of_char c :: nat) < 256"
    using of_char_mod_256 [of c, where ?'a = nat]
    by (metis mod_less_divisor zero_less_numeral)
  then have "(of_char c :: nat) div 16 < 16" by arith
  then have "((of_char c :: nat) div 16) mod 16 = of_char c div 16" by simp
  then have "hex_value (hex_digit (of_char c div 16)) * 16 +
      hex_value (hex_digit (of_char c mod 16)) = (of_char c :: nat)"
    by (simp add: hex_value_hex_digit)
  then show ?thesis by simp
qed

lemma percent_decode_plain:
  "c \<noteq> CHR ''%'' \<Longrightarrow> percent_decode (c # s) = c # percent_decode s"
  by (cases "(c # s)" rule: percent_decode.cases) simp_all

lemma percent_decode_escape:
  "percent_decode (CHR ''%'' # a # b # s) =
     char_of (hex_value a * 16 + hex_value b) # percent_decode s"
  by simp

lemma percent_decode_percent_encode:
  "percent_decode (percent_encode c @ s) = c # percent_decode s"
proof (cases "unreserved c")
  case True
  then have "c \<noteq> CHR ''%''" using percent_not_unreserved by auto
  then show ?thesis using True by (simp add: percent_encode_def percent_decode_plain)
next
  case False
  then show ?thesis
    by (simp only: percent_encode_def if_False append_Cons append_Nil
        percent_decode_escape byte_of_hex_digits)
qed

lemma percent_decode_escaped: "percent_decode (concat (map percent_encode s)) = s"
  by (induction s) (simp_all add: percent_decode_percent_encode)

lemma escaped_alphabet:
  "c \<in> set (concat (map percent_encode s)) \<Longrightarrow> unreserved c \<or> c = CHR ''%''"
  by (auto simp: percent_encode_def hex_digit_unreserved split: if_splits)

lemma fetchMovies_try_requests:
  "requests_of (trace (snd (fetchMovies_try env query endpoint w))) =
     requests_of (trace w) @ [endpoint]"
  by (simp add: fetchMovies_try_def fetchMovies_results_def Let_def setters requests_of_append
      updateSearchCount_def
      split: sum.splits json_body.splits option.splits list.splits prod.splits)

lemma fetchMovies_requests:
  assumes "endpoint_of query = Inr url"
  shows "requests_of (trace (fetchMovies env query w)) = requests_of (trace w) @ [url]"
proof -
  let ?w2 = "setErrorMessage (Str []) (setIsLoading True w)"
  obtain res w3 where run: "fetchMovies_try env query url ?w2 = (res, w3)"
    by (cases "fetchMovies_try env query url ?w2")
  have "requests_of (trace w3) = requests_of (trace ?w2) @ [url]"
    using fetchMovies_try_requests [of env query url ?w2] by (simp add: run)
  moreover have "requests_of (trace ?w2) = requests_of (trace w)"
    by (simp add: setters requests_of_append)
  moreover have "fetchMovies env query w =
      setIsLoading False
        (case res of
           Inl error \<Rightarrow>
             setErrorMessage (Str ''Error fetching movies. Please try again later.'')
               (console_error ''Error fetching movies:'' error w3)
         | Inr u \<Rightarrow> w3)"
    using assms by (simp add: fetchMovies_def Let_def run split: sum.splits)
  then have "requests_of (trace (fetchMovies env query w)) = requests_of (trace w3)"
    by (cases res) (simp_all add: setters requests_of_append)
  ultimately show ?thesis by simp
qed

text \<open>
  Claim C7 says that every non-empty query is sent to the search endpoint. For a query
  with an unpaired surrogate \<^verbatim>\<open>encodeURIComponent\<close> throws, and the cycle sends no
  request at all.
\<close>

theorem fetchMovies_unpaired_surrogate_sends_nothing_counterexample:
  "unpaired_surrogate \<noteq> []
   \<and> requests_of (trace (fetchMovies \<lparr>fetch = catalog_results [batman], db_fails = db_up\<rparr>
        unpaired_surrogate (initial_world []))) = []"
  by (simp add: fetchMovies_def endpoint_of_def encodeURIComponent_def Let_def setters
      scenarios)

text \<open>
  Claim C7, as the code has it. A query with an unpaired surrogate sends no request.
  Every other query sends exactly one request: to the discover URL when the query is
  empty, and otherwise to the search URL followed by the escaped query, which is never
  the discover URL. The escaped query has only unreserved characters and percent signs,
  and reading its escapes back gives the query.
\<close>

theorem fetchMovies_endpoint:
  "(lone_surrogate query \<longrightarrow>
      requests_of (trace (fetchMovies env query w)) = requests_of (trace w))
   \<and> (\<not> lone_surrogate query \<longrightarrow>
      (\<exists>escaped.
         encodeURIComponent query = Inr escaped
         \<and> percent_decode escaped = query
         \<and> (\<forall>c\<in>set escaped. unreserved c \<or> c = CHR ''%'')
         \<and> ''https://api.themoviedb.org/3/search/movie?query='' @ escaped \<noteq>
             ''https://api.themoviedb.org/3/discover/movie''
         \<and> requests_of (trace (fetchMovies env query w)) =
             requests_of (trace w) @
               [if query = [] then ''https://api.themoviedb.org/3/discover/movie''
                else ''https://api.themoviedb.org/3/search/movie?query='' @ escaped]))"
proof (intro conjI impI)
  assume "lone_surrogate query"
  then have "endpoint_of query = Inl URIError" by (rule endpoint_of_lone_surrogate)
  then show "requests_of (trace (fetchMovies env query w)) = requests_of (trace w)"
    by (simp add: fetchMovies_unhandled setters requests_of_append)
next
  assume wf: "\<not> lone_surrogate query"
  let ?escaped = "concat (map percent_encode query)"
  have enc: "encodeURIComponent query = Inr ?escaped"
    using wf by (simp add: encodeURIComponent_def)
  have decoded: "percent_decode ?escaped = query" by (rule percent_decode_escaped)
  have alphabet: "\<forall>c\<in>set ?escaped. unreserved c \<or> c = CHR ''%''"
    using escaped_alphabet by blast
  have differ: "''https://api.themoviedb.org/3/search/movie?query='' @ ?escaped \<noteq>
      ''https://api.themoviedb.org/3/discover/movie''"
    by simp
  have "endpoint_of query =
      Inr (if query = [] then discover_url else search_url @ ?escaped)"
    using wf by (rule endpoint_of_well_formed)
  then have sent: "requests_of (trace (fetchMovies env query w)) =
      requests_of (trace w) @
        [if query = [] then ''https://api.themoviedb.org/3/discover/movie''
         else ''https://api.themoviedb.org/3/search/movie?query='' @ ?escaped]"
    by (simp add: fetchMovies_requests discover_url_def search_url_def)
  from enc decoded alphabet differ sent
  show "\<exists>escaped.
         encodeURIComponent query = Inr escaped
         \<and> percent_decode escaped = query
         \<and> (\<forall>c\<in>set escaped. unreserved c \<or> c = CHR ''%'')
         \<and> ''https://api.themoviedb.org/3/search/movie?query='' @ escaped \<noteq>
             ''https://api.themoviedb.org/3/discover/movie''
         \<and> requests_of (trace (fetchMovies env query w)) =
             requests_of (trace w) @
               [if query = [] then ''https://api.themoviedb.org/3/discover/movie''
                else ''https://api.themoviedb.org/3/search/movie?query='' @ escaped]"
    by blast
qed

theorem fetchMovies_endpoint_witness:
  "\<not> lone_surrogate ''bat man&x''
   \<and> requests_of (trace (fetchMovies \<lparr>fetch = catalog_results [batman], db_fails = db_up\<rparr>
      ''bat man&x'' (initial_world []))) =
     [''https://api.themoviedb.org/3/search/movie?query=bat%20man%26x'']
   \<and> requests_of (trace (fetchMovies \<lparr>fetch = catalog_results [batman], db_fails = db_up\<rparr>
      ''joker'' (initial_world []))) =
     [''https://api.themoviedb.org/3/search/movie?query=joker'']
   \<and> requests_of (trace (fetchMovies \<lparr>fetch = catalog_results [batman], db_fails = db_up\<rparr>
      [] (initial_world []))) =
     [''https://api.themoviedb.org/3/discover/movie'']"
proof -
  have a: "\<not> lone_surrogate ''bat man&x''" by simp
  have b: "\<not> lone_surrogate ''joker''" by simp
  have c: "\<not> lone_surrogate []" by simp
  show ?thesis
    using a b c
      fetchMovies_endpoint
        [of "''bat man&x''" "\<lparr>fetch = catalog_results [batman], db_fails = db_up\<rparr>"
            "initial_world []"]
      fetchMovies_endpoint
        [of "''joker''" "\<lparr>fetch = catalog_results [batman], db_fails = db_up\<rparr>"
            "initial_world []"]
      fetchMovies_endpoint
        [of "[]" "\<lparr>fetch = catalog_results [batman], db_fails = db_up\<rparr>" "initial_world []"]
    by (simp add: initial_world_def encodeURIComponent_def percent_encode_def unreserved_def
        hex_digit_def)
qed

text \<open>A cycle whose endpoint expression returns ends with the spinner stopped.\<close>

lemma fetchMovies_clears_isLoading_when_sent:
  assumes "endpoint_of query = Inr url"
  shows "\<not> isLoading (fetchMovies env query w)
       \<and> last (trace (fetchMovies env query w)) = SetIsLoading False"
  using assms by (simp add: fetchMovies_def Let_def setIsLoading_def emit_def)

text \<open>
  Claim C8 says that every search cycle ends with \<open>isLoading\<close> cleared. The endpoint
  expression is evaluated before the \<^verbatim>\<open>try\<close> block: for a query with an unpaired
  surrogate it throws, the \<^verbatim>\<open>finally\<close> block is never entered, the cycle ends with
  \<open>isLoading\<close> true and the page keeps showing the spinner. Every other cycle does clear
  it last, as the lemma before this one says.
\<close>

theorem fetchMovies_unpaired_surrogate_keeps_isLoading:
  "isLoading (fetchMovies \<lparr>fetch = catalog_results [batman], db_fails = db_up\<rparr>
      unpaired_surrogate (initial_world []))
   \<and> trace (fetchMovies \<lparr>fetch = catalog_results [batman], db_fails = db_up\<rparr>
      unpaired_surrogate (initial_world [])) =
     [SetIsLoading True, SetErrorMessage (Str []), UnhandledRejection URIError]
   \<and> render_all_movies (fetchMovies \<lparr>fetch = catalog_results [batman], db_fails = db_up\<rparr>
      unpaired_surrogate (initial_world [])) = MoviesSpinner"
  by (simp add: fetchMovies_def endpoint_of_def encodeURIComponent_def Let_def setters
      render_all_movies_def scenarios)

section \<open>Failures of the database\<close>








text \<open>
  A write that reached the collection and was then reported as failed: the failure is
  logged and the count has changed.
\<close>

lemma updateSearchCount_answer_lost:
  "snd (updateSearchCount \<lparr>fetch = catalog_results [batman], db_fails = db_answer_lost\<rparr>
      ''batman'' batman (initial_world [batman_record 7 3])) =
     (initial_world [batman_record 7 4])
       \<lparr>trace := [UpdateSearchCount ''batman'' batman,
                  ConsoleError ''Error updating search count:'' TypeError]\<rparr>"
proof -
  have "js_add 3 1 = 4" using js_add_one_safe [of 3] by simp
  then show ?thesis
    by (simp add: updateSearchCount_def updateSearchCount_try_def listDocuments_def
        updateDocument_def Let_def setters scenarios)
qed

section \<open>The trending load cycle\<close>

lemma loadTrendingMovies_clears_flag: "\<not> isTrendingLoading (loadTrendingMovies env w)"
  by (simp add: loadTrendingMovies_def Let_def setters)

lemma loadTrendingMovies_success:
  assumes "listDocuments env [Limit 5, OrderDesc_count] (documents w) = Inr ds"
  shows "trandingMovies (loadTrendingMovies env w) = Some ds"
  using assms by (simp add: loadTrendingMovies_def getTrendingMovies_def Let_def setters)

lemma loadTrendingMovies_failure:
  assumes "listDocuments env [Limit 5, OrderDesc_count] (documents w) = Inl e"
  shows "trandingMovies (loadTrendingMovies env w) = None"
    and "render_trending (loadTrendingMovies env w) = Inl TypeError"
  using assms
  by (simp_all add: loadTrendingMovies_def getTrendingMovies_def Let_def setters
      render_trending_def)

text \<open>
  Claim C3 says that a failed trending load leaves the trending state as it was. When
  \<open>listDocuments\<close> fails at startup, \<open>getTrendingMovies\<close> logs the failure and returns
  \<^verbatim>\<open>undefined\<close>, which \<open>loadTrendingMovies\<close> stores: the trending state goes from the
  empty list to \<^verbatim>\<open>undefined\<close>, and rendering the trending section then raises.
\<close>

theorem loadTrendingMovies_failure_stores_undefined:
  "trandingMovies (initial_world [batman_record 1 4]) = Some []
   \<and> render_trending (initial_world [batman_record 1 4]) = Inr TrendingNothing
   \<and> trandingMovies (loadTrendingMovies \<lparr>fetch = catalog_results [], db_fails = db_down\<rparr>
        (initial_world [batman_record 1 4])) = None
   \<and> render_trending (loadTrendingMovies \<lparr>fetch = catalog_results [], db_fails = db_down\<rparr>
        (initial_world [batman_record 1 4])) = Inl TypeError
   \<and> trace (loadTrendingMovies \<lparr>fetch = catalog_results [], db_fails = db_down\<rparr>
        (initial_world [batman_record 1 4])) =
      [SetIsTrendingLoading True,
       ConsoleError ''Error fetching trending movies:'' AppwriteException,
       SetTtendingMovies None, SetIsTrendingLoading False]"
  by (simp add: loadTrendingMovies_def getTrendingMovies_def listDocuments_def Let_def setters
      render_trending_def scenarios)

end
